theory Spec2Isabelle
  imports Complex_Main
begin

section \<open>Deterministic match scores of \<^verbatim>\<open>app/resume_analysis.py\<close>\<close>

text \<open>
  The embedding covers the deterministic KPI helpers of the module: \<^verbatim>\<open>DEFAULT_SKILLS\<close>,
  \<^verbatim>\<open>_clean_text\<close>, \<^verbatim>\<open>_extract_skills\<close> and \<^verbatim>\<open>compute_nlp_scores\<close>.
  A leading underscore is not an Isabelle identifier, so \<^verbatim>\<open>_clean_text\<close> and
  \<^verbatim>\<open>_extract_skills\<close> are \<open>clean_text\<close> and \<open>extract_skills\<close> here.

  A Python \<^verbatim>\<open>str\<close> is a sequence of code points. It is modelled as a \<^typ>\<open>string\<close>
  whose characters are the code points U+0000 to U+00FF, one \<^typ>\<open>char\<close> each; the
  character classes below are Python's Unicode-aware ones restricted to that range.
  Python floats are modelled as \<^typ>\<open>real\<close>: the rounding of the module's own
  arithmetic is not modelled, and a double that the library returns enters as the real
  number it denotes.
\<close>

subsection \<open>Character classes of Python's \<^verbatim>\<open>str\<close> and \<^verbatim>\<open>re\<close>\<close>

text \<open>\<^verbatim>\<open>str.isspace\<close>, which is also \<^verbatim>\<open>\s\<close> of a \<^verbatim>\<open>str\<close> pattern and the separator
  set of \<^verbatim>\<open>str.split()\<close>.\<close>

definition is_space :: "char \<Rightarrow> bool" where
  "is_space c = (let n = (of_char c :: int) in
     (9 \<le> n \<and> n \<le> 13) \<or> (28 \<le> n \<and> n \<le> 32) \<or> n = 133 \<or> n = 160)"

text \<open>\<^verbatim>\<open>\w\<close> of a \<^verbatim>\<open>str\<close> pattern: alphanumeric (\<^verbatim>\<open>str.isalnum\<close>) or the underscore.\<close>

definition is_word :: "char \<Rightarrow> bool" where
  "is_word c = (let n = (of_char c :: int) in
     (48 \<le> n \<and> n \<le> 57) \<or> (65 \<le> n \<and> n \<le> 90) \<or> n = 95 \<or> (97 \<le> n \<and> n \<le> 122) \<or>
     n = 170 \<or> n = 178 \<or> n = 179 \<or> n = 181 \<or> n = 185 \<or> n = 186 \<or>
     (188 \<le> n \<and> n \<le> 190) \<or> (192 \<le> n \<and> n \<le> 214) \<or> (216 \<le> n \<and> n \<le> 246) \<or>
     (248 \<le> n \<and> n \<le> 255))"

text \<open>\<^verbatim>\<open>str.lower\<close>: the upper-case letters of the range are A to Z and U+00C0 to U+00DE
  without the multiplication sign U+00D7; each maps to the code point 32 above it.\<close>

definition is_upper :: "char \<Rightarrow> bool" where
  "is_upper c = (let n = (of_char c :: int) in
     (65 \<le> n \<and> n \<le> 90) \<or> (192 \<le> n \<and> n \<le> 214) \<or> (216 \<le> n \<and> n \<le> 222))"

definition char_lower :: "char \<Rightarrow> char" where
  "char_lower c = (if is_upper c then char_of (of_char c + (32 :: int)) else c)"

definition str_lower :: "string \<Rightarrow> string" where
  "str_lower t = map char_lower t"

subsection \<open>\<^verbatim>\<open>_clean_text\<close>\<close>

text \<open>The class \<^verbatim>\<open>[a-z0-9+\s]\<close>; \<^verbatim>\<open>re.sub\<close> replaces every character outside it
  by one space.\<close>

definition kept :: "char \<Rightarrow> bool" where
  "kept c = (let n = (of_char c :: int) in
     (97 \<le> n \<and> n \<le> 122) \<or> (48 \<le> n \<and> n \<le> 57) \<or> c = CHR ''+'' \<or> is_space c)"

definition sub_space :: "string \<Rightarrow> string" where
  "sub_space t = map (\<lambda>c. if kept c then c else CHR '' '') t"

text \<open>\<^verbatim>\<open>t.split()\<close>: the maximal runs of non-whitespace characters, in order.
  The first argument is the run being read, reversed.\<close>

fun split_run :: "string \<Rightarrow> string \<Rightarrow> string list" where
  "split_run run [] = (if run = [] then [] else [rev run])"
| "split_run run (c # cs) =
     (if is_space c
      then (if run = [] then split_run [] cs else rev run # split_run [] cs)
      else split_run (c # run) cs)"

definition str_split :: "string \<Rightarrow> string list" where
  "str_split t = split_run [] t"

text \<open>\<^verbatim>\<open>sep.join(parts)\<close>.\<close>

fun str_join :: "string \<Rightarrow> string list \<Rightarrow> string" where
  "str_join sep [] = []"
| "str_join sep [p] = p"
| "str_join sep (p # q # ps) = p @ sep @ str_join sep (q # ps)"

definition clean_text :: "string \<Rightarrow> string" where
  "clean_text t = str_join '' '' (str_split (sub_space (str_lower t)))"

subsection \<open>\<^verbatim>\<open>_extract_skills\<close>\<close>

definition DEFAULT_SKILLS :: "string list" where
  "DEFAULT_SKILLS =
    [''python'', ''java'', ''c'', ''c++'', ''html'', ''css'', ''javascript'', ''typescript'',
     ''react'', ''node'',
     ''sql'', ''postgres'', ''postgresql'', ''mysql'', ''mongodb'',
     ''aws'', ''gcp'', ''azure'', ''docker'', ''kubernetes'',
     ''linux'', ''git'', ''bash'', ''powershell'',
     ''pandas'', ''numpy'', ''scikit-learn'', ''sklearn'', ''tensorflow'', ''pytorch'',
     ''tableau'', ''power bi'', ''excel'',
     ''airflow'', ''dbt'', ''spark'', ''hadoop'', ''kafka'', ''etl'', ''mlops'', ''ci/cd'']"

text \<open>The assertion \<^verbatim>\<open>\b\<close> at position \<open>i\<close> of \<open>s\<close> (\<open>0 \<le> i \<le> len(s)\<close>): exactly one of
  the characters before and after the position is a word character; the text's two ends
  count as non-word.\<close>

definition at_boundary :: "string \<Rightarrow> nat \<Rightarrow> bool" where
  "at_boundary s i =
     ((0 < i \<and> i \<le> length s \<and> is_word (s ! (i - 1))) \<noteq> (i < length s \<and> is_word (s ! i)))"

text \<open>The pattern \<^verbatim>\<open>\b{re.escape(kw)}\b\<close> matched at position \<open>i\<close>: \<^verbatim>\<open>re.escape\<close> makes
  every character of \<open>kw\<close> match itself, so the pattern reads \<open>kw\<close> between two
  \<^verbatim>\<open>\b\<close> assertions.\<close>

definition match_at :: "string \<Rightarrow> string \<Rightarrow> nat \<Rightarrow> bool" where
  "match_at kw s i =
     (at_boundary s i \<and> take (length kw) (drop i s) = kw \<and> at_boundary s (i + length kw))"

text \<open>\<^verbatim>\<open>re.search(rf"\b{re.escape(kw)}\b", corpus)\<close> as a truth value: the pattern has
  no alternative and no repetition, so it is found when it matches at some start
  position \<open>0 \<le> i \<le> len(corpus)\<close>.\<close>

definition re_search :: "string \<Rightarrow> string \<Rightarrow> bool" where
  "re_search kw corpus = list_ex (match_at kw corpus) [0..<Suc (length corpus)]"

text \<open>\<^verbatim>\<open>extra\<close> is \<^verbatim>\<open>list[str] | None\<close>; \<^verbatim>\<open>if extra\<close> holds for a non-empty list.\<close>

definition extract_skills :: "string \<Rightarrow> string list option \<Rightarrow> string set" where
  "extract_skills text extra =
     (let corpus = str_lower text;
          keys = set DEFAULT_SKILLS \<union>
            (case extra of
               None \<Rightarrow> {}
             | Some ks \<Rightarrow> if ks \<noteq> [] then set (map str_lower ks) else {})
      in Set.filter (\<lambda>kw. re_search kw corpus) keys)"

subsection \<open>\<^verbatim>\<open>compute_nlp_scores\<close>\<close>

text \<open>The dictionary that \<^verbatim>\<open>compute_nlp_scores\<close> returns: these five keys and no other.\<close>

record score_report =
  cosine :: real
  skills_overlap :: real
  hybrid :: real
  resume_skills :: "string set"
  jd_skills :: "string set"

datatype py_error = ZeroDivisionError

text \<open>
  scikit-learn is not part of the repository. The module-level flag \<^verbatim>\<open>_HAS_SK\<close> and the
  two library calls inside the \<^verbatim>\<open>try\<close> block are a parameter of the model:
  \<open>None\<close> when the import failed (\<^verbatim>\<open>_HAS_SK = False\<close>), and \<open>Some tfidf_cosine\<close>
  otherwise, where \<open>tfidf_cosine a b\<close> is the value of
  \<^verbatim>\<open>float(cosine_similarity(tfidf[0:1], tfidf[1:2])[0][0])\<close> for the fitted documents
  \<open>a\<close> and \<open>b\<close>, or \<open>None\<close> when the vectorizer raises (an empty vocabulary, for
  instance).
\<close>

type_synonym sklearn = "(string \<Rightarrow> string \<Rightarrow> real option) option"

text \<open>Lines 188 to 196: the \<^verbatim>\<open>except Exception\<close> branch and the missing library both
  give \<^verbatim>\<open>0.0\<close>.\<close>

definition cosine_of :: "sklearn \<Rightarrow> string \<Rightarrow> string \<Rightarrow> real" where
  "cosine_of sk resume_text jd_text =
     (case sk of
        None \<Rightarrow> 0
      | Some tfidf_cosine \<Rightarrow>
          (case tfidf_cosine (clean_text resume_text) (clean_text jd_text) of
             Some c \<Rightarrow> c
           | None \<Rightarrow> 0))"

text \<open>Python's \<^verbatim>\<open>/\<close> on two integers.\<close>

definition truediv :: "nat \<Rightarrow> nat \<Rightarrow> py_error + real" where
  "truediv a b = (if b = 0 then Inl ZeroDivisionError else Inr (real a / real b))"

text \<open>Lines 204 to 209, the weighted hybrid, with \<^verbatim>\<open>_HAS_SK\<close> as an argument
  (\<open>c\<close> is the source's \<^verbatim>\<open>cos\<close>).\<close>

definition hybrid_score :: "bool \<Rightarrow> real \<Rightarrow> real \<Rightarrow> real" where
  "hybrid_score has_sk c jacc =
     (if has_sk then 0.65 * c + 0.35 * jacc else 0.35 * jacc)"

definition compute_nlp_scores ::
  "sklearn \<Rightarrow> string \<Rightarrow> string \<Rightarrow> string list option \<Rightarrow> py_error + score_report" where
  "compute_nlp_scores sk resume_text jd_text extra_skill_keywords =
     (let c = cosine_of sk resume_text jd_text;
          rs = extract_skills resume_text extra_skill_keywords;
          js = extract_skills jd_text extra_skill_keywords;
          union = max 1 (card (rs \<union> js))
      in case truediv (card (rs \<inter> js)) union of
           Inl e \<Rightarrow> Inl e
         | Inr jacc \<Rightarrow>
             Inr \<lparr>cosine = c, skills_overlap = jacc,
                  hybrid = hybrid_score (sk \<noteq> None) c jacc,
                  resume_skills = rs, jd_skills = js\<rparr>)"

subsection \<open>Auxiliary notions for the statements\<close>

text \<open>The library on the corpus of two documents \<^verbatim>\<open>python java\<close>. Both TF-IDF rows are
  \<open>[1, 1]\<close> scaled to length 1; the double arithmetic of the two L2 normalisations and of
  the dot product returns \<^verbatim>\<open>1.0000000000000002\<close>, the double \<open>1 + 1 / 2 ^ 52\<close>. No other
  corpus is given to this instance.\<close>

definition sklearn_python_java :: "string \<Rightarrow> string \<Rightarrow> real option" where
  "sklearn_python_java a b =
     (if a = ''python java'' \<and> b = ''python java'' then Some (1 + 1 / 2 ^ 52) else None)"

text \<open>A present library whose vectorizer raises, as \<^verbatim>\<open>TfidfVectorizer.fit_transform\<close>
  does on a corpus with an empty vocabulary.\<close>

definition vectorizer_raises :: "string \<Rightarrow> string \<Rightarrow> real option" where
  "vectorizer_raises a b = None"

section \<open>Properties\<close>

subsection \<open>The report in closed form\<close>

lemma finite_extract_skills: "finite (extract_skills t e)"
  by (simp add: extract_skills_def Let_def split: option.split)

lemma card_Int_le_Un:
  assumes "finite A" "finite B"
  shows "card (A \<inter> B) \<le> card (A \<union> B)"
  using assms by (intro card_mono) auto

lemma truediv_max: "truediv a (max 1 b) = Inr (real a / real (max 1 b))"
  by (simp add: truediv_def)

text \<open>The denominator \<^verbatim>\<open>max(1, len(rs | js))\<close> is never zero, so the division never
  raises and the function returns its dictionary on every input.\<close>

lemma compute_nlp_scores_Inr:
  "compute_nlp_scores sk a b e =
     Inr \<lparr>cosine = cosine_of sk a b,
          skills_overlap =
            real (card (extract_skills a e \<inter> extract_skills b e)) /
            real (max 1 (card (extract_skills a e \<union> extract_skills b e))),
          hybrid = hybrid_score (sk \<noteq> None) (cosine_of sk a b)
            (real (card (extract_skills a e \<inter> extract_skills b e)) /
             real (max 1 (card (extract_skills a e \<union> extract_skills b e)))),
          resume_skills = extract_skills a e, jd_skills = extract_skills b e\<rparr>"
  unfolding compute_nlp_scores_def Let_def truediv_max by simp

lemma jaccard_bounds:
  assumes "finite A" "finite B"
  shows "0 \<le> real (card (A \<inter> B)) / real (max 1 (card (A \<union> B)))"
    and "real (card (A \<inter> B)) / real (max 1 (card (A \<union> B))) \<le> 1"
proof -
  show "0 \<le> real (card (A \<inter> B)) / real (max 1 (card (A \<union> B)))" by simp
  have "card (A \<inter> B) \<le> max 1 (card (A \<union> B))"
    using card_Int_le_Un [OF assms] by simp
  then have "real (card (A \<inter> B)) \<le> real (max 1 (card (A \<union> B)))"
    by (simp only: of_nat_le_iff)
  moreover have "0 < real (max 1 (card (A \<union> B)))" by simp
  ultimately show "real (card (A \<inter> B)) / real (max 1 (card (A \<union> B))) \<le> 1"
    by (simp only: divide_le_eq_1_pos)
qed

text \<open>The overlap is a quotient of a cardinality by a larger one.\<close>

lemma skills_overlap_in_unit:
  "\<exists>r. compute_nlp_scores sk a b e = Inr r \<and> 0 \<le> skills_overlap r \<and> skills_overlap r \<le> 1"
  unfolding compute_nlp_scores_Inr
  using jaccard_bounds [OF finite_extract_skills finite_extract_skills] by simp

text \<open>Line 192 stores the library's value as it is: between the call and the returned
  dictionary nothing bounds it.\<close>

lemma library_cosine_unclamped:
  assumes "tfidf_cosine (clean_text a) (clean_text b) = Some c"
  shows "\<exists>r. compute_nlp_scores (Some tfidf_cosine) a b e = Inr r \<and> cosine r = c \<and>
             hybrid r = 0.65 * c + 0.35 * skills_overlap r"
  using assms unfolding compute_nlp_scores_Inr
  by (simp add: cosine_of_def hybrid_score_def)

lemma clean_text_python_java: "clean_text ''python java'' = ''python java''"
  by code_simp

lemma extract_skills_python_java: "extract_skills ''python java'' None = {''python'', ''java''}"
  by code_simp

subsection \<open>The scores\<close>

text \<open>
  C1. The report's \<open>cosine\<close>, \<open>skills_overlap\<close> and \<open>hybrid\<close> are to lie in the closed
  interval from 0 to 1, as the docstring of \<^verbatim>\<open>compute_nlp_scores\<close> says. The code returns
  the library's cosine unbounded: on the two documents \<^verbatim>\<open>python java\<close>, where the library
  returns the double \<^verbatim>\<open>1.0000000000000002\<close>, the report's \<open>cosine\<close> is above 1.
\<close>

theorem cosine_above_one:
  "\<exists>r. compute_nlp_scores (Some sklearn_python_java) ''python java'' ''python java'' None = Inr r \<and>
        cosine r = 1 + 1 / 2 ^ 52 \<and> 1 < cosine r \<and>
        resume_skills r = {''python'', ''java''} \<and> jd_skills r = {''python'', ''java''}"
  unfolding compute_nlp_scores_Inr extract_skills_python_java
  by (simp add: cosine_of_def clean_text_python_java sklearn_python_java_def)

text \<open>
  C2. \<^verbatim>\<open>compute_nlp_scores\<close> is total: for all texts (the empty ones too), every
  extra keyword list and every state of the library (absent, raising or returning), it
  raises nothing and returns a report, which holds the five fields.
\<close>

theorem compute_nlp_scores_total:
  "\<exists>r. compute_nlp_scores sk resume_text jd_text extra = Inr r"
  unfolding compute_nlp_scores_Inr by simp

text \<open>
  C3. The hybrid score of the report is \<open>0.65 * cosine + 0.35 * skills_overlap\<close> when
  scikit-learn is present and \<open>0.35 * skills_overlap\<close> when it is absent; without the
  library, a cosine of 1 and an overlap of 0.5 give 0.175.
\<close>

theorem hybrid_formula:
  "\<exists>r. compute_nlp_scores sk resume_text jd_text extra = Inr r \<and>
        hybrid r = (if sk \<noteq> None then 0.65 * cosine r + 0.35 * skills_overlap r
                    else 0.35 * skills_overlap r) \<and>
        hybrid_score False 1 0.5 = 0.175"
  unfolding compute_nlp_scores_Inr by (simp add: hybrid_score_def)

text \<open>
  C8. With scikit-learn present the hybrid score is monotonically non-decreasing in the
  cosine and in the overlap (for all real arguments, those of the unit interval among
  them).
\<close>

theorem hybrid_monotone:
  assumes "c1 \<le> c2" and "s1 \<le> s2"
  shows "hybrid_score True c1 s \<le> hybrid_score True c2 s \<and>
         hybrid_score True c s1 \<le> hybrid_score True c s2"
  using assms by (simp add: hybrid_score_def)

theorem hybrid_monotone_witness:
  "(1 / 5 :: real) \<le> 4 / 5 \<and> (0 :: real) \<le> 1 \<and>
   hybrid_score True (1 / 5) (1 / 2) \<le> hybrid_score True (4 / 5) (1 / 2) \<and>
   hybrid_score True (1 / 2) 0 \<le> hybrid_score True (1 / 2) 1"
proof -
  have h1: "(1 / 5 :: real) \<le> 4 / 5" and h2: "(0 :: real) \<le> 1" by simp_all
  from h1 h2 hybrid_monotone [OF h1 h2, of "1 / 2" "1 / 2"] show ?thesis by blast
qed

text \<open>
  C9. Swapping the two documents keeps \<open>skills_overlap\<close> and exchanges
  \<open>resume_skills\<close> with \<open>jd_skills\<close>.
\<close>

theorem skills_symmetric:
  "\<exists>r1 r2. compute_nlp_scores sk a b extra = Inr r1 \<and>
            compute_nlp_scores sk b a extra = Inr r2 \<and>
            skills_overlap r1 = skills_overlap r2 \<and>
            resume_skills r1 = jd_skills r2 \<and> jd_skills r1 = resume_skills r2"
  unfolding compute_nlp_scores_Inr by (simp add: Int_commute Un_commute)

subsection \<open>Skill extraction\<close>

text \<open>
  C10. Extra keywords only enlarge the result: the set found with any extra keyword
  list contains the set found with none.
\<close>

theorem extra_keywords_enlarge:
  "extract_skills text None \<subseteq> extract_skills text extra"
  by (auto simp: extract_skills_def Let_def split: option.split)

text \<open>
  C6. Word boundaries are respected: the skills found in the text \<^verbatim>\<open>javascript\<close>, with
  no extra keywords, do not contain \<^verbatim>\<open>java\<close>.
\<close>

theorem javascript_not_java: "''java'' \<notin> extract_skills ''javascript'' None"
  by code_simp

lemma javascript_skills: "extract_skills ''javascript'' None = {''javascript''}"
  by code_simp

lemma extract_skills_empty: "extract_skills [] None = {}"
  by code_simp

text \<open>
  C7. On two empty texts \<^verbatim>\<open>compute_nlp_scores\<close> returns a report (no error) with
  \<open>skills_overlap = 0\<close> and with \<open>resume_skills\<close> and \<open>jd_skills\<close> both empty.
\<close>

theorem empty_documents:
  "\<exists>r. compute_nlp_scores sk '''' '''' None = Inr r \<and>
        skills_overlap r = 0 \<and> resume_skills r = {} \<and> jd_skills r = {}"
  unfolding compute_nlp_scores_Inr by (simp add: extract_skills_empty)

subsection \<open>The keyword \<^verbatim>\<open>c++\<close>\<close>

text \<open>
  The pattern for \<^verbatim>\<open>c++\<close> is \<^verbatim>\<open>\bc\+\+\b\<close>. Its last character is not a word
  character, so the closing \<^verbatim>\<open>\b\<close> holds only where a word character follows: the
  keyword is found in \<^verbatim>\<open>c++11\<close> and never where \<^verbatim>\<open>c++\<close> stands before a space, a
  punctuation mark or the end of the text.
\<close>

lemma take3_drop:
  assumes "take 3 (drop i s) = [a, b, c]"
  shows "i + 3 \<le> length s \<and> s ! (i + 2) = c"
proof -
  have "length (take 3 (drop i s)) = 3" using assms by simp
  then have len: "i + 3 \<le> length s" by simp
  have "take 3 (drop i s) ! 2 = c" using assms by simp
  then have "s ! (i + 2) = c" using len by simp
  with len show ?thesis by simp
qed

lemma cpp_needs_word_after:
  assumes "re_search ''c++'' s"
  shows "\<exists>i. i + 3 < length s \<and> take 3 (drop i s) = ''c++'' \<and> is_word (s ! (i + 3))"
proof -
  from assms obtain i where m: "match_at ''c++'' s i"
    by (auto simp: re_search_def list_ex_iff)
  then have t: "take 3 (drop i s) = ''c++''" and b: "at_boundary s (i + 3)"
    by (simp_all add: match_at_def eval_nat_numeral)
  from take3_drop [OF t] have len: "i + 3 \<le> length s" and plus: "s ! (i + 2) = CHR ''+''"
    by simp_all
  have "\<not> is_word (s ! (i + 2))" unfolding plus by (simp add: is_word_def)
  with b have "i + 3 < length s \<and> is_word (s ! (i + 3))"
    by (simp add: at_boundary_def)
  with t show ?thesis by blast
qed

lemma cpp_found_only_before_word:
  assumes "''c++'' \<in> extract_skills text extra"
  shows "\<exists>i. i + 3 < length text \<and> take 3 (drop i (str_lower text)) = ''c++'' \<and>
             is_word (str_lower text ! (i + 3))"
proof -
  from assms have "re_search ''c++'' (str_lower text)"
    by (simp add: extract_skills_def Let_def)
  from cpp_needs_word_after [OF this] show ?thesis by (simp add: str_lower_def)
qed

lemma cpp_sentence: "extract_skills ''I know C++ and Java'' None = {''c'', ''java''}"
  by code_simp

lemma cpp_before_digit: "''c++'' \<in> extract_skills ''c++11'' None"
  by code_simp

text \<open>
  C4. Keywords are matched as whole words between two word boundaries, and the keyword
  \<^verbatim>\<open>c++\<close> is to be found in a text that holds \<^verbatim>\<open>c++\<close> as a token of its own. The
  code finds only \<^verbatim>\<open>c\<close> in the text \<^verbatim>\<open>c++\<close>.
\<close>

theorem cpp_token_not_found: "extract_skills ''c++'' None = {''c''}"
  by code_simp

subsection \<open>Degraded mode\<close>

text \<open>
  C5, as amended. Without scikit-learn the report has \<open>cosine = 0\<close> and
  \<open>hybrid = 0.35 * skills_overlap\<close>. The report holds no availability flag: it is
  equal to the report of a present library whose vectorizer raises or whose cosine is 0
  on the two documents.
\<close>

theorem degraded_report:
  assumes "tfidf_cosine (clean_text a) (clean_text b) = None \<or>
           tfidf_cosine (clean_text a) (clean_text b) = Some 0"
  shows "(\<exists>r. compute_nlp_scores None a b e = Inr r \<and> cosine r = 0 \<and>
              hybrid r = 0.35 * skills_overlap r) \<and>
         compute_nlp_scores (Some tfidf_cosine) a b e = compute_nlp_scores None a b e"
  using assms unfolding compute_nlp_scores_Inr
  by (auto simp: cosine_of_def hybrid_score_def)

theorem degraded_report_witness:
  "(vectorizer_raises (clean_text ''python'') (clean_text ''java'') = None \<or>
    vectorizer_raises (clean_text ''python'') (clean_text ''java'') = Some 0) \<and>
   (\<exists>r. compute_nlp_scores None ''python'' ''java'' None = Inr r \<and> cosine r = 0 \<and>
        hybrid r = 0.35 * skills_overlap r) \<and>
   compute_nlp_scores (Some vectorizer_raises) ''python'' ''java'' None =
     compute_nlp_scores None ''python'' ''java'' None"
proof -
  have h: "vectorizer_raises (clean_text ''python'') (clean_text ''java'') = None \<or>
    vectorizer_raises (clean_text ''python'') (clean_text ''java'') = Some 0"
    by (simp add: vectorizer_raises_def)
  from h degraded_report [of vectorizer_raises "''python''" "''java''" None]
  show ?thesis by blast
qed

text \<open>
  C5, as stated, fails: on two empty texts the run with scikit-learn present (its
  vectorizer raising on the empty vocabulary) and the run without scikit-learn return
  the same report, so no function of the report tells the degraded mode.
\<close>

theorem degraded_not_detectable:
  "compute_nlp_scores (Some vectorizer_raises) '''' '''' None =
     compute_nlp_scores None '''' '''' None \<and>
   \<not> (\<exists>detect. \<forall>sk r. compute_nlp_scores sk '''' '''' None = Inr r \<longrightarrow>
         detect r = (sk = None))"
proof -
  have eq: "compute_nlp_scores (Some vectorizer_raises) '''' '''' None =
     compute_nlp_scores None '''' '''' None"
    unfolding compute_nlp_scores_Inr
    by (simp add: cosine_of_def hybrid_score_def vectorizer_raises_def)
  obtain r where r: "compute_nlp_scores None '''' '''' None = Inr r"
    unfolding compute_nlp_scores_Inr by simp
  have "\<not> (\<exists>detect. \<forall>sk r. compute_nlp_scores sk '''' '''' None = Inr r \<longrightarrow>
         detect r = (sk = None))"
  proof
    assume "\<exists>detect. \<forall>sk r. compute_nlp_scores sk '''' '''' None = Inr r \<longrightarrow>
         detect r = (sk = None)"
    then obtain detect where d: "\<And>sk r. compute_nlp_scores sk '''' '''' None = Inr r \<Longrightarrow>
         detect r = (sk = None)" by blast
    from d [OF r] have "detect r" by simp
    moreover from d [of "Some vectorizer_raises" r] eq r have "\<not> detect r" by simp
    ultimately show False by contradiction
  qed
  with eq show ?thesis by blast
qed

subsection \<open>The examples of the documentation\<close>

lemma case_insensitive: "{''python'', ''aws''} \<subseteq> extract_skills ''I use Python and AWS'' None"
  by code_simp

lemma phrase_match: "''power bi'' \<in> extract_skills ''I use Power BI daily'' None"
  by code_simp

lemma extra_rustlang:
  "''rustlang'' \<in> extract_skills ''I know Rustlang'' (Some [''rustlang''])"
  "''rustlang'' \<notin> extract_skills ''I know Rustlang'' None"
  by code_simp+

lemma clean_text_example: "clean_text ''  Hello,   World!  C++ & C# '' = ''hello world c++ c''"
  by code_simp

lemma end_to_end:
  "\<exists>r. compute_nlp_scores sk
          ''Experienced Python and SQL developer with AWS deployment experience''
          ''Looking for a Python developer with AWS and Docker skills'' None = Inr r \<and>
        resume_skills r = {''python'', ''sql'', ''aws''} \<and>
        jd_skills r = {''python'', ''aws'', ''docker''} \<and>
        skills_overlap r = 1 / 2"
proof -
  have r: "extract_skills ''Experienced Python and SQL developer with AWS deployment experience'' None
      = {''python'', ''sql'', ''aws''}"
    by code_simp
  have j: "extract_skills ''Looking for a Python developer with AWS and Docker skills'' None
      = {''python'', ''aws'', ''docker''}"
    by code_simp
  have i: "card ({''python'', ''sql'', ''aws''} \<inter> {''python'', ''aws'', ''docker''}) = 2"
    by code_simp
  have u: "card ({''python'', ''sql'', ''aws''} \<union> {''python'', ''aws'', ''docker''}) = 4"
    by code_simp
  show ?thesis unfolding compute_nlp_scores_Inr r j i u by simp
qed

end
